theory Spec2Isabelle
  imports Main
begin

section \<open>JavaScript values\<close>

text \<open>
  The values that flow through \<^verbatim>\<open>src/index.ts\<close>: what \<^verbatim>\<open>response.json()\<close> decodes, what the
  protocol layer hands over as tool arguments, and what \<^verbatim>\<open>parseInt\<close> returns.

  \<^item> Numbers are the integers (ids, the version constant) and \<open>NaN\<close>. A JavaScript number is a
    double, and \<open>JNum n\<close> stands for the double \<open>n\<close> only when \<open>\<bar>n\<bar> < 2^53\<close>: on that range every
    integer is a double of its own, it prints in plain decimal and it is parsed back exactly.
    Beyond it JavaScript rounds, prints an exponent from \<open>10^21\<close> on and overflows to
    \<open>Infinity\<close>; the model does none of that, so the theorems of the claims that print or
    parse a number carry the bound \<open>\<bar>n\<bar> < 2^53\<close> as a hypothesis. Numbers with a fraction are not
    modelled. \<open>-0\<close> prints as \<open>0\<close> everywhere in this program, so it is not kept apart
    from \<open>0\<close>.
  \<^item> An object is the list of its own properties in the order \<^verbatim>\<open>Object.entries\<close> enumerates
    them. The keys of a JavaScript object are pairwise distinct.
  \<^item> A character stands for the UTF-16 code unit of the same number (code units up to 255).
\<close>

datatype jsval =
    JUndefined
  | JNull
  | JBool bool
  | JNum int
  | JNaN
  | JStr string
  | JArr "jsval list"
  | JObj "(string \<times> jsval) list"

text \<open>What a rejected promise or a \<^verbatim>\<open>throw\<close> carries. \<open>FetchFailed\<close> is the rejection of
  \<^verbatim>\<open>fetch\<close> (the backend cannot be reached), \<open>JsonSyntaxError\<close> the rejection of
  \<^verbatim>\<open>response.json()\<close>, \<open>TypeError\<close> the engine's own (reading a property of \<^verbatim>\<open>null\<close>, calling
  what is not a function), \<open>Error m\<close> is \<^verbatim>\<open>new Error(m)\<close>.\<close>

datatype failure = FetchFailed | JsonSyntaxError | TypeError | Error string

subsection \<open>Number to string\<close>

definition digit_char :: "nat \<Rightarrow> char" where
  "digit_char d = char_of (of_char (CHR ''0'') + d)"

fun show_nat :: "nat \<Rightarrow> string" where
  "show_nat n = (if n < 10 then [digit_char n] else show_nat (n div 10) @ [digit_char (n mod 10)])"

declare show_nat.simps [simp del]

definition show_int :: "int \<Rightarrow> string" where
  "show_int i = (if i < 0 then CHR ''-'' # show_nat (nat (- i)) else show_nat (nat i))"

subsection \<open>\<^verbatim>\<open>Array.prototype.join\<close>, template literals\<close>

text \<open>The first failure of a list of outcomes, from left to right, or all the values.\<close>

fun collect :: "('e + 'a) list \<Rightarrow> 'e + 'a list" where
  "collect [] = Inr []"
| "collect (x # xs) =
     (case x of
        Inl e \<Rightarrow> Inl e
      | Inr v \<Rightarrow> (case collect xs of Inl e \<Rightarrow> Inl e | Inr vs \<Rightarrow> Inr (v # vs)))"

fun join_with :: "string \<Rightarrow> string list \<Rightarrow> string" where
  "join_with sep [] = []"
| "join_with sep [x] = x"
| "join_with sep (x # y # ys) = x @ sep @ join_with sep (y # ys)"

text \<open>\<^verbatim>\<open>`${v}`\<close>: the string conversion of a value. An array is its elements joined by a comma,
  where \<^verbatim>\<open>undefined\<close> and \<^verbatim>\<open>null\<close> elements give the empty string. A decoded object has no
  callable \<^verbatim>\<open>toString\<close> of its own: with an own property of that name the conversion throws,
  without one \<^verbatim>\<open>Object.prototype.toString\<close> answers. A number is printed in plain decimal,
  which is what JavaScript prints for the integers below \<open>2^53\<close> in magnitude.\<close>

fun to_string :: "jsval \<Rightarrow> failure + string" where
  "to_string JUndefined = Inr ''undefined''"
| "to_string JNull = Inr ''null''"
| "to_string (JBool b) = Inr (if b then ''true'' else ''false'')"
| "to_string (JNum n) = Inr (show_int n)"
| "to_string JNaN = Inr ''NaN''"
| "to_string (JStr s) = Inr s"
| "to_string (JArr xs) =
     (case collect
         (map (\<lambda>x. case x of JUndefined \<Rightarrow> Inr [] | JNull \<Rightarrow> Inr [] | _ \<Rightarrow> to_string x) xs) of
        Inl e \<Rightarrow> Inl e
      | Inr parts \<Rightarrow> Inr (join_with '','' parts))"
| "to_string (JObj kvs) =
     (case map_of kvs ''toString'' of
        None \<Rightarrow> Inr ''[object Object]''
      | Some v \<Rightarrow> Inl TypeError)"

definition element_string :: "jsval \<Rightarrow> failure + string" where
  "element_string x = (case x of JUndefined \<Rightarrow> Inr [] | JNull \<Rightarrow> Inr [] | _ \<Rightarrow> to_string x)"

text \<open>\<^verbatim>\<open>v.join(sep)\<close>: only an array has the method; on anything else the call throws.\<close>

definition array_join :: "jsval \<Rightarrow> string \<Rightarrow> failure + string" where
  "array_join v sep =
     (case v of
        JArr xs \<Rightarrow>
          (case collect (map element_string xs) of
             Inl e \<Rightarrow> Inl e
           | Inr parts \<Rightarrow> Inr (join_with sep parts))
      | _ \<Rightarrow> Inl TypeError)"

subsection \<open>\<^verbatim>\<open>JSON.stringify\<close>\<close>

definition hex_char :: "nat \<Rightarrow> char" where
  "hex_char d = (if d < 10 then digit_char d else char_of (of_char (CHR ''a'') + (d - 10)))"

definition quote_char :: "char \<Rightarrow> string" where
  "quote_char c =
     (if c = CHR 0x22 then [CHR 0x5C, CHR 0x22]
      else if c = CHR 0x5C then [CHR 0x5C, CHR 0x5C]
      else if c = CHR 0x08 then [CHR 0x5C, CHR ''b'']
      else if c = CHR 0x0C then [CHR 0x5C, CHR ''f'']
      else if c = CHR 0x0A then [CHR 0x5C, CHR ''n'']
      else if c = CHR 0x0D then [CHR 0x5C, CHR ''r'']
      else if c = CHR 0x09 then [CHR 0x5C, CHR ''t'']
      else if (of_char c :: nat) < 32
        then [CHR 0x5C, CHR ''u'', CHR ''0'', CHR ''0'',
              hex_char (of_char c div 16), hex_char (of_char c mod 16)]
      else [c])"

definition quote :: "string \<Rightarrow> string" where
  "quote s = CHR 0x22 # concat (map quote_char s) @ [CHR 0x22]"

text \<open>The result is \<^verbatim>\<open>undefined\<close> (\<open>None\<close>) for \<^verbatim>\<open>undefined\<close> itself; inside an array
  \<^verbatim>\<open>undefined\<close> is written \<^verbatim>\<open>null\<close>, and a property whose value is \<^verbatim>\<open>undefined\<close> is left out.
  A number is written in plain decimal, which is what \<^verbatim>\<open>JSON.stringify\<close> writes for the
  integers below \<open>2^53\<close> in magnitude.\<close>

fun stringify :: "jsval \<Rightarrow> string option" where
  "stringify JUndefined = None"
| "stringify JNull = Some ''null''"
| "stringify (JBool b) = Some (if b then ''true'' else ''false'')"
| "stringify (JNum n) = Some (show_int n)"
| "stringify JNaN = Some ''null''"
| "stringify (JStr s) = Some (quote s)"
| "stringify (JArr xs) =
     Some (''['' @ join_with '',''
        (map (\<lambda>x. case stringify x of None \<Rightarrow> ''null'' | Some t \<Rightarrow> t) xs) @ '']'')"
| "stringify (JObj kvs) =
     Some (''{'' @ join_with '',''
        (concat (map (\<lambda>(k, v). case stringify v of None \<Rightarrow> []
                                  | Some t \<Rightarrow> [quote k @ '':'' @ t]) kvs)) @ ''}'')"

subsection \<open>Truthiness, property access, \<^verbatim>\<open>Object.entries\<close>\<close>

fun truthy :: "jsval \<Rightarrow> bool" where
  "truthy JUndefined = False"
| "truthy JNull = False"
| "truthy (JBool b) = b"
| "truthy (JNum n) = (n \<noteq> 0)"
| "truthy JNaN = False"
| "truthy (JStr s) = (s \<noteq> [])"
| "truthy (JArr xs) = True"
| "truthy (JObj kvs) = True"

text \<open>\<^verbatim>\<open>v.k\<close> and \<^verbatim>\<open>const { k } = v\<close>, for the two keys the program reads (\<^verbatim>\<open>result\<close> and
  \<^verbatim>\<open>modelName\<close>), which no built-in prototype defines: reading a property of \<^verbatim>\<open>undefined\<close> or
  \<^verbatim>\<open>null\<close> throws, a missing property is \<^verbatim>\<open>undefined\<close>.\<close>

fun get_property :: "jsval \<Rightarrow> string \<Rightarrow> failure + jsval" where
  "get_property JUndefined k = Inl TypeError"
| "get_property JNull k = Inl TypeError"
| "get_property (JObj kvs) k = Inr (case map_of kvs k of None \<Rightarrow> JUndefined | Some v \<Rightarrow> v)"
| "get_property v k = Inr JUndefined"

definition indexed :: "'a list \<Rightarrow> (string \<times> 'a) list" where
  "indexed xs = zip (map show_nat [0 ..< length xs]) xs"

fun entries :: "jsval \<Rightarrow> failure + (string \<times> jsval) list" where
  "entries JUndefined = Inl TypeError"
| "entries JNull = Inl TypeError"
| "entries (JObj kvs) = Inr kvs"
| "entries (JArr xs) = Inr (indexed xs)"
| "entries (JStr s) = Inr (indexed (map (\<lambda>c. JStr [c]) s))"
| "entries v = Inr []"

subsection \<open>Strings: \<^verbatim>\<open>startsWith\<close>, \<^verbatim>\<open>replace\<close>, \<^verbatim>\<open>parseInt\<close>\<close>

definition starts_with :: "string \<Rightarrow> string \<Rightarrow> bool" where
  "starts_with s p = (take (length p) s = p)"

text \<open>\<^verbatim>\<open>s.replace(pat, rep)\<close> with a string pattern: the first occurrence only (\<open>rep\<close> is the
  empty string in this program, so no \<^verbatim>\<open>$\<close> pattern is involved).\<close>

fun replace_first :: "string \<Rightarrow> string \<Rightarrow> string \<Rightarrow> string" where
  "replace_first pat rep [] = (if pat = [] then rep else [])"
| "replace_first pat rep (c # cs) =
     (if starts_with (c # cs) pat then rep @ drop (length pat) (c # cs)
      else c # replace_first pat rep cs)"

definition is_white_space :: "char \<Rightarrow> bool" where
  "is_white_space c =
     (c = CHR 0x09 \<or> c = CHR 0x0A \<or> c = CHR 0x0B \<or> c = CHR 0x0C \<or> c = CHR 0x0D
      \<or> c = CHR 0x20 \<or> c = CHR 0xA0)"

text \<open>The value of a character as a digit of the given radix (10 or 16 here).\<close>

definition digit_of :: "nat \<Rightarrow> char \<Rightarrow> nat option" where
  "digit_of radix c =
     (let n = (of_char c :: nat);
          d = (if 48 \<le> n \<and> n \<le> 57 then Some (n - 48)
               else if 97 \<le> n \<and> n \<le> 122 then Some (n - 87)
               else if 65 \<le> n \<and> n \<le> 90 then Some (n - 55)
               else None)
      in case d of None \<Rightarrow> None | Some v \<Rightarrow> if v < radix then Some v else None)"

fun digits_prefix :: "nat \<Rightarrow> string \<Rightarrow> nat list" where
  "digits_prefix radix [] = []"
| "digits_prefix radix (c # cs) =
     (case digit_of radix c of None \<Rightarrow> [] | Some d \<Rightarrow> d # digits_prefix radix cs)"

definition digits_value :: "nat \<Rightarrow> nat list \<Rightarrow> nat" where
  "digits_value radix ds = foldl (\<lambda>a d. a * radix + d) 0 ds"

text \<open>\<^verbatim>\<open>parseInt(s)\<close> with no radix: leading white space is skipped, a sign is read, a
  \<^verbatim>\<open>0x\<close> or \<^verbatim>\<open>0X\<close> prefix selects radix 16, the longest run of digits is the number and whatever
  follows it is ignored; with no digit at all the result is \<open>NaN\<close>. The result is the exact
  integer of the digits, which is JavaScript's result when it is below \<open>2^53\<close> in magnitude
  (JavaScript rounds a longer number to a double).\<close>

definition parseInt :: "string \<Rightarrow> jsval" where
  "parseInt s =
     (let s1 = dropWhile is_white_space s;
          negative = (case s1 of [] \<Rightarrow> False | c # _ \<Rightarrow> c = CHR ''-'');
          s2 = (case s1 of [] \<Rightarrow> [] | c # cs \<Rightarrow> if c = CHR ''+'' \<or> c = CHR ''-'' then cs else s1);
          hex = (starts_with s2 ''0x'' \<or> starts_with s2 ''0X'');
          radix = (if hex then 16 else 10);
          s3 = (if hex then drop 2 s2 else s2);
          ds = digits_prefix radix s3
      in if ds = [] then JNaN
         else JNum ((if negative then - 1 else 1) * int (digits_value radix ds)))"

section \<open>The Backend Gateway\<close>

text \<open>
  The backend is outside the program. It is a transition function on a state of its own:
  given the request that \<^verbatim>\<open>fetch\<close> sends, it answers and moves to a new state. The answer is
  that the connection fails, that the body is not JSON, or the decoded payload.
  The program's side of the world is the list of the requests it has sent so far.
\<close>

record http_request =
  url :: string
  http_method :: string
  body :: "string option"

datatype http_response = NetworkError | NotJson | Json jsval

type_synonym 'b backend = "'b \<Rightarrow> http_request \<Rightarrow> http_response \<times> 'b"

record 'b world =
  backend_state :: 'b
  requests :: "http_request list"

text \<open>The argument of \<^verbatim>\<open>fetch\<close> in \<^verbatim>\<open>ankiRequest\<close>.\<close>

definition anki_post :: "string \<Rightarrow> jsval \<Rightarrow> http_request" where
  "anki_post action params =
     \<lparr> url = ''http://localhost:8765'',
       http_method = ''POST'',
       body = stringify (JObj [(''action'', JStr action), (''version'', JNum 6),
                               (''params'', params)]) \<rparr>"

text \<open>\<^verbatim>\<open>async function ankiRequest<T>(action: string, params: any = {}): Promise<T>\<close>.
  An omitted or \<^verbatim>\<open>undefined\<close> \<open>params\<close> takes the default \<^verbatim>\<open>{}\<close>. The \<^verbatim>\<open>error\<close> field of the
  payload is not read.\<close>

definition ankiRequest ::
  "'b backend \<Rightarrow> string \<Rightarrow> jsval \<Rightarrow> 'b world \<Rightarrow> (failure + jsval) \<times> 'b world" where
  "ankiRequest be action params w =
     (let params' = (if params = JUndefined then JObj [] else params);
          req = anki_post action params';
          (response, s') = be (backend_state w) req;
          w' = \<lparr> backend_state = s', requests = requests w @ [req] \<rparr>
      in case response of
           NetworkError \<Rightarrow> (Inl FetchFailed, w')
         | NotJson \<Rightarrow> (Inl JsonSyntaxError, w')
         | Json payload \<Rightarrow> (get_property payload ''result'', w'))"

section \<open>The Resource Catalog\<close>

record located =
  uri :: string

record resource = located +
  name :: string

record content = located +
  mimeType :: string
  text' :: "string option"

record list_result =
  resources :: "resource list"

record read_result =
  contents :: "content list"

text \<open>The handler of \<^verbatim>\<open>ListResourcesRequestSchema\<close>.\<close>

definition deck_resource :: "string \<times> jsval \<Rightarrow> failure + resource" where
  "deck_resource =
     (\<lambda>(name, id). case to_string id of
        Inl e \<Rightarrow> Inl e
      | Inr s \<Rightarrow> Inr \<lparr> uri = ''anki://decks/'' @ s, name = name \<rparr>)"

definition model_resource :: "string \<times> jsval \<Rightarrow> failure + resource" where
  "model_resource =
     (\<lambda>(name, id). case to_string id of
        Inl e \<Rightarrow> Inl e
      | Inr s \<Rightarrow> Inr \<lparr> uri = ''anki://models/'' @ s, name = name \<rparr>)"

definition list_resources :: "'b backend \<Rightarrow> 'b world \<Rightarrow> (failure + list_result) \<times> 'b world" where
  "list_resources be w =
     (case ankiRequest be ''deckNamesAndIds'' JUndefined w of
        (Inl e, w1) \<Rightarrow> (Inl e, w1)
      | (Inr decks, w1) \<Rightarrow>
     (case ankiRequest be ''modelNamesAndIds'' JUndefined w1 of
        (Inl e, w2) \<Rightarrow> (Inl e, w2)
      | (Inr models, w2) \<Rightarrow>
     (case entries decks of
        Inl e \<Rightarrow> (Inl e, w2)
      | Inr deck_entries \<Rightarrow>
     (case collect (map deck_resource deck_entries) of
        Inl e \<Rightarrow> (Inl e, w2)
      | Inr deckResources \<Rightarrow>
     (case entries models of
        Inl e \<Rightarrow> (Inl e, w2)
      | Inr model_entries \<Rightarrow>
     (case collect (map model_resource model_entries) of
        Inl e \<Rightarrow> (Inl e, w2)
      | Inr modelResources \<Rightarrow>
          (Inr \<lparr> resources = deckResources @ modelResources \<rparr>, w2)))))))"

text \<open>The handler of \<^verbatim>\<open>ReadResourceRequestSchema\<close>.\<close>

definition read_resource ::
  "'b backend \<Rightarrow> string \<Rightarrow> 'b world \<Rightarrow> (failure + read_result) \<times> 'b world" where
  "read_resource be u w =
     (if starts_with u ''anki://decks/'' then
        (let deckId = parseInt (replace_first ''anki://decks/'' [] u)
         in (Inr \<lparr> contents =
                    [\<lparr> uri = u, mimeType = ''application/json'',
                       text' = stringify (JObj [(''deckId'', deckId)]) \<rparr>] \<rparr>, w))
      else if starts_with u ''anki://models/'' then
        (let modelId = parseInt (replace_first ''anki://models/'' [] u)
         in case ankiRequest be ''findModelsById'' (JObj [(''modelIds'', JArr [modelId])]) w of
              (Inl e, w1) \<Rightarrow> (Inl e, w1)
            | (Inr models, w1) \<Rightarrow>
                (Inr \<lparr> contents =
                       [\<lparr> uri = u, mimeType = ''application/json'',
                          text' = stringify models \<rparr>] \<rparr>, w1))
      else (Inl (Error ''resource not found''), w))"

section \<open>The Tool Dispatcher\<close>

record tool_result =
  toolResult :: string

text \<open>The handler of \<^verbatim>\<open>CallToolRequestSchema\<close>; \<open>arguments\<close> is \<^verbatim>\<open>request.params.arguments\<close>,
  \<^verbatim>\<open>undefined\<close> when the request has none.\<close>

definition call_tool ::
  "'b backend \<Rightarrow> string \<Rightarrow> jsval \<Rightarrow> 'b world \<Rightarrow> (failure + tool_result) \<times> 'b world" where
  "call_tool be tool arguments w =
     (if tool = ''listDecks'' then
        (case ankiRequest be ''deckNames'' JUndefined w of
           (Inl e, w1) \<Rightarrow> (Inl e, w1)
         | (Inr decks, w1) \<Rightarrow>
             (case array_join decks '', '' of
                Inl e \<Rightarrow> (Inl e, w1)
              | Inr joined \<Rightarrow>
                  (Inr \<lparr> toolResult =
                     ''Here is a list of the decks in the user's Anki collection: '' @ joined \<rparr>,
                   w1)))
      else if tool = ''listModels'' then
        (case ankiRequest be ''modelNames'' JUndefined w of
           (Inl e, w1) \<Rightarrow> (Inl e, w1)
         | (Inr models, w1) \<Rightarrow>
             (case to_string models of
                Inl e \<Rightarrow> (Inl e, w1)
              | Inr printed \<Rightarrow>
                  (Inr \<lparr> toolResult =
                     ''Here is the list of note models in the user's Anki collection: ''
                     @ printed \<rparr>, w1)))
      else if tool = ''getModel'' then
        (if \<not> truthy arguments then (Inl (Error ''getModel requires a model name''), w)
         else
           (case get_property arguments ''modelName'' of
              Inl e \<Rightarrow> (Inl e, w)
            | Inr modelName \<Rightarrow>
                (case ankiRequest be ''findModelsByName''
                        (JObj [(''modelNames'', JArr [modelName])]) w of
                   (Inl e, w1) \<Rightarrow> (Inl e, w1)
                 | (Inr model, w1) \<Rightarrow>
                     (case to_string modelName of
                        Inl e \<Rightarrow> (Inl e, w1)
                      | Inr printed \<Rightarrow>
                          (Inr \<lparr> toolResult =
                             ''Here is the '' @ printed
                             @ '' in the user's Anki collection: ''
                             @ (case stringify model of None \<Rightarrow> ''undefined'' | Some t \<Rightarrow> t) \<rparr>,
                           w1)))))
      else if tool = ''addNotes'' then
        (case ankiRequest be ''addNotes'' arguments w of
           (Inl e, w1) \<Rightarrow> (Inl e, w1)
         | (Inr createdNoteIds, w1) \<Rightarrow>
             (case array_join createdNoteIds '', '' of
                Inl e \<Rightarrow> (Inl e, w1)
              | Inr joined \<Rightarrow>
                  (Inr \<lparr> toolResult = ''Created notes with the following IDs: '' @ joined \<rparr>,
                   w1)))
      else if tool = ''addNote'' then
        (case ankiRequest be ''addNote'' (JObj [(''note'', arguments)]) w of
           (Inl e, w1) \<Rightarrow> (Inl e, w1)
         | (Inr createdNoteId, w1) \<Rightarrow>
             (case to_string createdNoteId of
                Inl e \<Rightarrow> (Inl e, w1)
              | Inr printed \<Rightarrow>
                  (Inr \<lparr> toolResult =
                     ''Created note with the following ID: '' @ printed \<rparr>, w1)))
      else (Inl (Error ''Unknown tool''), w))"

section \<open>Test backends and drivers\<close>

text \<open>A backend that plays a script: each request takes the next answer of the list, and the
  connection fails once the script is over.\<close>

definition scripted :: "http_response list backend" where
  "scripted s req = (case s of [] \<Rightarrow> (NetworkError, []) | r # rs \<Rightarrow> (r, rs))"

text \<open>A read-only backend: its state is the result it reports, with a \<^verbatim>\<open>null\<close> error, to every
  request.\<close>

definition answering :: "jsval backend" where
  "answering s req = (Json (JObj [(''result'', s), (''error'', JNull)]), s)"

definition start :: "'b \<Rightarrow> 'b world" where
  "start s = \<lparr> backend_state = s, requests = [] \<rparr>"

text \<open>A client that calls the same tool \<open>n\<close> times in a row and collects the outcomes.\<close>

fun call_repeatedly ::
  "'b backend \<Rightarrow> string \<Rightarrow> jsval \<Rightarrow> nat \<Rightarrow> 'b world
    \<Rightarrow> (failure + tool_result) list \<times> 'b world" where
  "call_repeatedly be tool arguments 0 w = ([], w)"
| "call_repeatedly be tool arguments (Suc n) w =
     (case call_tool be tool arguments w of
        (r, w1) \<Rightarrow> (case call_repeatedly be tool arguments n w1 of (rs, w2) \<Rightarrow> (r # rs, w2)))"

text \<open>The decoded value of a \<^verbatim>\<open>Record<string, number>\<close> (\<^verbatim>\<open>DeckNamesToIds\<close>,
  \<^verbatim>\<open>ModelNamesToIds\<close>), and the URIs of a listing.\<close>

definition id_mapping :: "(string \<times> int) list \<Rightarrow> jsval" where
  "id_mapping kvs = JObj (map (\<lambda>(k, i). (k, JNum i)) kvs)"

definition listed_uris :: "failure + list_result \<Rightarrow> string list" where
  "listed_uris r = (case r of Inl e \<Rightarrow> [] | Inr l \<Rightarrow> map uri (resources l))"

text \<open>The values on which the model is exact: every number inside is \<open>NaN\<close> or an integer
  below \<open>2^53\<close> in magnitude.\<close>

fun exact_value :: "jsval \<Rightarrow> bool" where
  "exact_value (JNum n) = (\<bar>n\<bar> < 2 ^ 53)"
| "exact_value (JArr xs) = list_all exact_value xs"
| "exact_value (JObj kvs) = list_all (\<lambda>(k, v). exact_value v) kvs"
| "exact_value v = True"

text \<open>The decimal digits of a number, most significant first (what \<open>show_nat\<close> prints).\<close>

fun nat_digits :: "nat \<Rightarrow> nat list" where
  "nat_digits n = (if n < 10 then [n] else nat_digits (n div 10) @ [n mod 10])"

declare nat_digits.simps [simp del]

section \<open>Decimal numbers: printing and parsing\<close>

lemma of_char_digit_char: "d < 10 \<Longrightarrow> (of_char (digit_char d) :: nat) = 48 + d"
  by (simp add: digit_char_def)

lemma digit_of_digit_char: "d < 10 \<Longrightarrow> digit_of 10 (digit_char d) = Some d"
  by (simp add: digit_of_def of_char_digit_char)


lemma nat_digits_not_Nil: "nat_digits n \<noteq> []"
  by (subst nat_digits.simps) simp

lemma digits_value_snoc: "digits_value r (ds @ [d]) = digits_value r ds * r + d"
  by (simp add: digits_value_def)

lemma digits_value_nat_digits: "digits_value 10 (nat_digits n) = n"
proof (induction n rule: nat_digits.induct)
  case (1 n)
  show ?case
  proof (cases "n < 10")
    case True
    then show ?thesis by (subst nat_digits.simps) (simp add: digits_value_def)
  next
    case False
    with 1 show ?thesis by (subst nat_digits.simps) (simp add: digits_value_snoc)
  qed
qed

lemma digits_prefix_show_nat:
  "digits_prefix 10 (show_nat n @ rest) = nat_digits n @ digits_prefix 10 rest"
proof (induction n arbitrary: rest rule: show_nat.induct)
  case (1 n)
  show ?case
  proof (cases "n < 10")
    case True
    then show ?thesis
      by (subst show_nat.simps, subst nat_digits.simps) (simp add: digit_of_digit_char)
  next
    case False
    have "digits_prefix 10 (show_nat n @ rest)
        = digits_prefix 10 (show_nat (n div 10) @ (digit_char (n mod 10) # rest))"
      using False by (subst show_nat.simps) simp
    also have "\<dots> = nat_digits (n div 10) @ digits_prefix 10 (digit_char (n mod 10) # rest)"
      using False by (rule "1.IH")
    also have "\<dots> = nat_digits n @ digits_prefix 10 rest"
      using False by (subst (2) nat_digits.simps) (simp add: digit_of_digit_char)
    finally show ?thesis .
  qed
qed

lemma show_nat_chars: "c \<in> set (show_nat n) \<Longrightarrow> \<exists>d<10. c = digit_char d"
proof (induction n rule: show_nat.induct)
  case (1 n)
  show ?case
  proof (cases "n < 10")
    case True
    with "1.prems" show ?thesis by (subst (asm) show_nat.simps) auto
  next
    case False
    from "1.prems" False have "c \<in> set (show_nat (n div 10)) \<or> c = digit_char (n mod 10)"
      by (subst (asm) show_nat.simps) auto
    then show ?thesis
    proof
      assume "c \<in> set (show_nat (n div 10))"
      with False "1.IH" show ?thesis by blast
    next
      assume "c = digit_char (n mod 10)"
      moreover have "n mod 10 < 10" by simp
      ultimately show ?thesis by blast
    qed
  qed
qed

lemma show_nat_not_Nil: "show_nat n \<noteq> []"
  by (subst show_nat.simps) simp

lemma show_nat_code_units: "c \<in> set (show_nat n) \<Longrightarrow> 48 \<le> (of_char c :: nat) \<and> (of_char c :: nat) \<le> 57"
  using show_nat_chars [of c n] by (auto simp: of_char_digit_char)

lemma starts_with_second: "starts_with s [a, b] \<Longrightarrow> b \<in> set s"
proof -
  assume "starts_with s [a, b]"
  then have "take (length [a, b]) s = [a, b]" by (simp only: starts_with_def)
  then have "b \<in> set (take (length [a, b]) s)" by simp
  then show "b \<in> set s" by (rule in_set_takeD)
qed

lemma show_nat_no_hex:
  "\<not> starts_with (show_nat n) ''0x''" "\<not> starts_with (show_nat n) ''0X''"
  using show_nat_code_units [of "CHR ''x''" n] show_nat_code_units [of "CHR ''X''" n]
    starts_with_second [of "show_nat n" "CHR ''0''"]
  by auto

lemma parseInt_show_nat: "parseInt (show_nat n) = JNum (int n)"
proof -
  obtain c cs where s: "show_nat n = c # cs"
    using show_nat_not_Nil [of n] by (cases "show_nat n") auto
  have c: "48 \<le> (of_char c :: nat) \<and> (of_char c :: nat) \<le> 57"
    using show_nat_code_units [of c n] s by simp
  have ws: "\<not> is_white_space c" and plus: "c \<noteq> CHR ''+''" and minus: "c \<noteq> CHR ''-''"
    using c by (auto simp: is_white_space_def)
  have nohex: "\<not> starts_with (c # cs) ''0x''" "\<not> starts_with (c # cs) ''0X''"
    using show_nat_no_hex [of n] s by simp_all
  have ds: "digits_prefix 10 (c # cs) = nat_digits n"
    using digits_prefix_show_nat [of n "[]"] s by simp
  show ?thesis
    using ws plus minus nohex ds
    by (simp add: parseInt_def s Let_def nat_digits_not_Nil digits_value_nat_digits)
qed

lemma parseInt_show_int: "parseInt (show_int i) = JNum i"
proof (cases "i < 0")
  case False
  then show ?thesis by (simp add: show_int_def parseInt_show_nat)
next
  case True
  obtain c cs where s: "show_nat (nat (- i)) = c # cs"
    using show_nat_not_Nil [of "nat (- i)"] by (cases "show_nat (nat (- i))") auto
  have nohex: "\<not> starts_with (c # cs) ''0x''" "\<not> starts_with (c # cs) ''0X''"
    using show_nat_no_hex [of "nat (- i)"] s by simp_all
  have ds: "digits_prefix 10 (c # cs) = nat_digits (nat (- i))"
    using digits_prefix_show_nat [of "nat (- i)" "[]"] s by simp
  have "\<not> is_white_space (CHR ''-'')" by (simp add: is_white_space_def)
  then show ?thesis
    using True nohex ds
    by (simp add: parseInt_def show_int_def s Let_def nat_digits_not_Nil digits_value_nat_digits)
qed

lemma show_int_inj: "show_int i = show_int j \<Longrightarrow> i = j"
proof -
  assume "show_int i = show_int j"
  then have "parseInt (show_int i) = parseInt (show_int j)" by simp
  then show "i = j" by (simp add: parseInt_show_int)
qed

section \<open>Strings, the gateway, the read handler: basic facts\<close>

lemma starts_with_append: "starts_with (p @ s) p"
  by (simp add: starts_with_def)

lemma replace_first_prefix: "starts_with u p \<Longrightarrow> replace_first p [] u = drop (length p) u"
  by (cases u) (auto simp: starts_with_def)

lemma replace_decks_prefix:
  assumes "starts_with u ''anki://decks/''"
  shows "replace_first ''anki://decks/'' [] u = drop 13 u"
proof -
  have "length ''anki://decks/'' = 13" by simp
  with replace_first_prefix [OF assms] show ?thesis by (simp only:)
qed

lemma replace_models_prefix:
  assumes "starts_with u ''anki://models/''"
  shows "replace_first ''anki://models/'' [] u = drop 14 u"
proof -
  have "length ''anki://models/'' = 14" by simp
  with replace_first_prefix [OF assms] show ?thesis by (simp only:)
qed

lemma quote_deckId: \<open>quote ''deckId'' = ''"deckId"''\<close>
  by (simp add: quote_def quote_char_def)

lemma stringify_deckId_num:
  \<open>stringify (JObj [(''deckId'', JNum n)]) = Some (''{"deckId":'' @ show_int n @ ''}'')\<close>
  by (simp add: quote_deckId)


lemma read_resource_decks:
  assumes "starts_with u ''anki://decks/''"
  shows "read_resource be u w =
           (Inr \<lparr> contents = [\<lparr> uri = u, mimeType = ''application/json'',
                     text' = stringify (JObj [(''deckId'', parseInt (drop 13 u))]) \<rparr>] \<rparr>, w)"
  using assms by (simp add: read_resource_def replace_decks_prefix [OF assms])

lemma models_not_decks: "starts_with u ''anki://models/'' \<Longrightarrow> \<not> starts_with u ''anki://decks/''"
  by (auto simp: starts_with_def take_Suc_conv_app_nth dest!: arg_cong [where f = "\<lambda>xs. xs ! 7"])

lemma read_resource_models:
  assumes "starts_with u ''anki://models/''"
  shows "read_resource be u w =
     (case ankiRequest be ''findModelsById'' (JObj [(''modelIds'', JArr [parseInt (drop 14 u)])]) w of
        (Inl e, w1) \<Rightarrow> (Inl e, w1)
      | (Inr models, w1) \<Rightarrow>
          (Inr \<lparr> contents = [\<lparr> uri = u, mimeType = ''application/json'',
                                text' = stringify models \<rparr>] \<rparr>, w1))"
  using assms models_not_decks [OF assms]
  by (simp add: read_resource_def replace_models_prefix [OF assms])

lemma read_resource_other:
  "\<not> starts_with u ''anki://decks/'' \<Longrightarrow> \<not> starts_with u ''anki://models/'' \<Longrightarrow>
   read_resource be u w = (Inl (Error ''resource not found''), w)"
  by (simp add: read_resource_def)

lemma ankiRequest_requests:
  "requests (snd (ankiRequest be a p w)) =
     requests w @ [anki_post a (if p = JUndefined then JObj [] else p)]"
  by (simp add: ankiRequest_def Let_def split: prod.splits http_response.splits)

lemma ankiRequest_state:
  "backend_state (snd (ankiRequest be a p w)) =
     snd (be (backend_state w) (anki_post a (if p = JUndefined then JObj [] else p)))"
  by (simp add: ankiRequest_def Let_def split: prod.splits http_response.splits)

lemma ankiRequest_outcome:
  "fst (ankiRequest be a p w) =
     (case fst (be (backend_state w) (anki_post a (if p = JUndefined then JObj [] else p))) of
        NetworkError \<Rightarrow> Inl FetchFailed
      | NotJson \<Rightarrow> Inl JsonSyntaxError
      | Json payload \<Rightarrow> get_property payload ''result'')"
  by (simp add: ankiRequest_def Let_def split: prod.splits http_response.splits)

lemma ankiRequest_Json:
  assumes "be (backend_state w) (anki_post a (if p = JUndefined then JObj [] else p)) = (Json payload, s')"
  shows "ankiRequest be a p w =
     (get_property payload ''result'',
      \<lparr> backend_state = s',
        requests = requests w @ [anki_post a (if p = JUndefined then JObj [] else p)] \<rparr>)"
  using assms by (simp add: ankiRequest_def Let_def)


section \<open>Reading a resource\<close>

text \<open>
  C5: for every numeric id \<open>n\<close> (an integer a JavaScript number holds exactly),
  reading \<^verbatim>\<open>anki://decks/<n>\<close> succeeds without touching the world and returns one content
  block whose text is the JSON of \<^verbatim>\<open>{deckId: n}\<close>, that is \<^verbatim>\<open>{"deckId":<n>}\<close>; and a URI that
  starts with neither recognized prefix fails with \<^verbatim>\<open>Error("resource not found")\<close>.
\<close>
theorem read_deck_echoes_id:
  \<open>(\<bar>n\<bar> < 2 ^ 53 \<longrightarrow>
      read_resource be (''anki://decks/'' @ show_int n) w =
        (Inr \<lparr> contents = [\<lparr> uri = ''anki://decks/'' @ show_int n,
                              mimeType = ''application/json'',
                              text' = stringify (JObj [(''deckId'', JNum n)]) \<rparr>] \<rparr>, w)
      \<and> stringify (JObj [(''deckId'', JNum n)]) = Some (''{"deckId":'' @ show_int n @ ''}''))
   \<and> (\<not> starts_with u ''anki://decks/'' \<and> \<not> starts_with u ''anki://models/'' \<longrightarrow>
        read_resource be u w = (Inl (Error ''resource not found''), w))\<close>
proof (intro conjI impI)
  have pre: "starts_with (''anki://decks/'' @ show_int n) ''anki://decks/''"
    by (rule starts_with_append)
  show "read_resource be (''anki://decks/'' @ show_int n) w =
        (Inr \<lparr> contents = [\<lparr> uri = ''anki://decks/'' @ show_int n,
                              mimeType = ''application/json'',
                              text' = stringify (JObj [(''deckId'', JNum n)]) \<rparr>] \<rparr>, w)"
    by (simp only: read_resource_decks [OF pre]) (simp add: parseInt_show_int)
  show \<open>stringify (JObj [(''deckId'', JNum n)]) = Some (''{"deckId":'' @ show_int n @ ''}'')\<close>
    by (rule stringify_deckId_num)
next
  assume "\<not> starts_with u ''anki://decks/'' \<and> \<not> starts_with u ''anki://models/''"
  then show "read_resource be u w = (Inl (Error ''resource not found''), w)"
    by (simp add: read_resource_other)
qed

lemma show_int_42: "show_int 42 = ''42''"
  by code_simp

theorem read_deck_echoes_id_witness:
  \<open>\<bar>42 :: int\<bar> < 2 ^ 53
   \<and> read_resource scripted ''anki://decks/42'' (start []) =
        (Inr \<lparr> contents = [\<lparr> uri = ''anki://decks/42'', mimeType = ''application/json'',
                              text' = Some ''{"deckId":42}'' \<rparr>] \<rparr>, start [])
   \<and> \<not> starts_with ''bogus://x'' ''anki://decks/''
   \<and> \<not> starts_with ''bogus://x'' ''anki://models/''
   \<and> read_resource scripted ''bogus://x'' (start []) = (Inl (Error ''resource not found''), start [])\<close>
  using read_deck_echoes_id [where n = 42 and be = scripted and w = "start []" and u = "''bogus://x''"]
  by (simp add: show_int_42 starts_with_def)

text \<open>
  C9: reading a URI that begins with \<^verbatim>\<open>anki://decks/\<close> sends no request and leaves the world
  (the requests sent so far and the backend's state) as it was; its outcome is the same under
  any other backend and world, so it is computed from the URI alone.
\<close>
theorem read_deck_is_local:
  assumes "starts_with u ''anki://decks/''"
  shows "snd (read_resource be u w) = w
       \<and> requests (snd (read_resource be u w)) = requests w
       \<and> backend_state (snd (read_resource be u w)) = backend_state w
       \<and> fst (read_resource be u w) = fst (read_resource be' u w')"
  by (simp add: read_resource_decks [OF assms])

theorem read_deck_is_local_witness:
  "starts_with ''anki://decks/42'' ''anki://decks/''
   \<and> snd (read_resource scripted ''anki://decks/42'' (start [Json JNull])) = start [Json JNull]
   \<and> fst (read_resource scripted ''anki://decks/42'' (start [Json JNull]))
       = fst (read_resource answering ''anki://decks/42'' (start (JNum 5)))"
proof -
  have h: "starts_with ''anki://decks/42'' ''anki://decks/''"
    by (simp add: starts_with_def)
  from read_deck_is_local [OF h, of scripted "start [Json JNull]" answering "start (JNum 5)"]
  show ?thesis using h by simp
qed

text \<open>
  C10: every successful read, under either prefix, returns exactly one content block; its
  \<^verbatim>\<open>uri\<close> is the requested URI and its \<^verbatim>\<open>mimeType\<close> is \<^verbatim>\<open>application/json\<close>.
\<close>
theorem read_single_json_block:
  assumes "read_resource be u w = (Inr r, w')"
  shows "length (contents r) = 1
       \<and> map uri (contents r) = [u]
       \<and> map mimeType (contents r) = [''application/json'']"
proof (cases "starts_with u ''anki://decks/''")
  case True
  with assms show ?thesis by (auto simp: read_resource_decks)
next
  case nd: False
  show ?thesis
  proof (cases "starts_with u ''anki://models/''")
    case True
    with assms show ?thesis
      by (auto simp: read_resource_models split: prod.splits sum.splits)
  next
    case False
    with nd assms show ?thesis by (simp add: read_resource_other)
  qed
qed

theorem read_single_json_block_witness:
  \<open>read_resource scripted ''anki://models/7''
      (start [Json (JObj [(''result'', JArr [JObj [(''id'', JNum 7)]]), (''error'', JNull)])])
     = (Inr \<lparr> contents = [\<lparr> uri = ''anki://models/7'', mimeType = ''application/json'',
                             text' = Some ''[{"id":7}]'' \<rparr>] \<rparr>,
        \<lparr> backend_state = [],
          requests = [anki_post ''findModelsById'' (JObj [(''modelIds'', JArr [JNum 7])])] \<rparr>)
   \<and> length (contents \<lparr> contents = [\<lparr> uri = ''anki://models/7'', mimeType = ''application/json'',
                             text' = Some ''[{"id":7}]'' \<rparr>] \<rparr>) = 1\<close>
proof -
  have h: \<open>read_resource scripted ''anki://models/7''
      (start [Json (JObj [(''result'', JArr [JObj [(''id'', JNum 7)]]), (''error'', JNull)])])
     = (Inr \<lparr> contents = [\<lparr> uri = ''anki://models/7'', mimeType = ''application/json'',
                             text' = Some ''[{"id":7}]'' \<rparr>] \<rparr>,
        \<lparr> backend_state = [],
          requests = [anki_post ''findModelsById'' (JObj [(''modelIds'', JArr [JNum 7])])] \<rparr>)\<close>
    by code_simp
  from read_single_json_block [OF h] show ?thesis using h by simp
qed







section \<open>The gateway and the error indicator\<close>

text \<open>
  C1, as the claim states it, fails: the backend answers \<^verbatim>\<open>{result: null, error: "collection is
  not available"}\<close>, a payload with a non-empty error indicator, and \<^verbatim>\<open>ankiRequest\<close> returns
  normally, with the \<^verbatim>\<open>result\<close> field \<^verbatim>\<open>null\<close>.
\<close>
theorem ankiRequest_error_counterexample:
  "ankiRequest scripted ''deckNames'' JUndefined
     (start [Json (JObj [(''result'', JNull), (''error'', JStr ''collection is not available'')])])
   = (Inr JNull, \<lparr> backend_state = [], requests = [anki_post ''deckNames'' (JObj [])] \<rparr>)"
  by (simp add: ankiRequest_def scripted_def start_def)

text \<open>
  C1, amended: the \<^verbatim>\<open>error\<close> field is never read. For every decoded payload that is an object,
  \<^verbatim>\<open>ankiRequest\<close> returns its \<^verbatim>\<open>result\<close> field (\<^verbatim>\<open>undefined\<close> when there is none), whatever
  the error indicator holds; it fails exactly when \<^verbatim>\<open>fetch\<close> fails, the body is not JSON, or
  the decoded payload is \<^verbatim>\<open>null\<close>.
\<close>

theorem ankiRequest_ignores_error:
  "(be (backend_state w) (anki_post action (if params = JUndefined then JObj [] else params))
       = (Json (JObj kvs), s') \<longrightarrow>
      fst (ankiRequest be action params w)
       = Inr (case map_of kvs ''result'' of None \<Rightarrow> JUndefined | Some v \<Rightarrow> v))
   \<and> ((\<exists>e. fst (ankiRequest be action params w) = Inl e) \<longleftrightarrow>
        fst (be (backend_state w) (anki_post action (if params = JUndefined then JObj [] else params)))
          \<in> {NetworkError, NotJson, Json JNull, Json JUndefined})"
proof (intro conjI impI)
  assume "be (backend_state w) (anki_post action (if params = JUndefined then JObj [] else params))
            = (Json (JObj kvs), s')"
  then show "fst (ankiRequest be action params w)
       = Inr (case map_of kvs ''result'' of None \<Rightarrow> JUndefined | Some v \<Rightarrow> v)"
    by (simp add: ankiRequest_Json)
next
  let ?r = "fst (be (backend_state w) (anki_post action (if params = JUndefined then JObj [] else params)))"
  show "(\<exists>e. fst (ankiRequest be action params w) = Inl e) \<longleftrightarrow>
        ?r \<in> {NetworkError, NotJson, Json JNull, Json JUndefined}"
  proof (cases ?r)
    case NetworkError
    then show ?thesis by (simp add: ankiRequest_outcome)
  next
    case NotJson
    then show ?thesis by (simp add: ankiRequest_outcome)
  next
    case (Json payload)
    then show ?thesis by (cases payload) (simp_all add: ankiRequest_outcome)
  qed
qed

theorem ankiRequest_ignores_error_witness:
  "scripted (backend_state (start [Json (JObj [(''result'', JNum 5), (''error'', JStr ''boom'')])]))
       (anki_post ''addNote'' (JObj [(''note'', JNull)]))
     = (Json (JObj [(''result'', JNum 5), (''error'', JStr ''boom'')]), [])
   \<and> fst (ankiRequest scripted ''addNote'' (JObj [(''note'', JNull)])
            (start [Json (JObj [(''result'', JNum 5), (''error'', JStr ''boom'')])])) = Inr (JNum 5)"
proof -
  have h: "scripted (backend_state (start [Json (JObj [(''result'', JNum 5), (''error'', JStr ''boom'')])]))
       (anki_post ''addNote'' (if JObj [(''note'', JNull)] = JUndefined then JObj [] else JObj [(''note'', JNull)]))
     = (Json (JObj [(''result'', JNum 5), (''error'', JStr ''boom'')]), [])"
    by (simp add: scripted_def start_def)
  from ankiRequest_ignores_error
         [where be = scripted and action = "''addNote''" and params = "JObj [(''note'', JNull)]"
            and w = "start [Json (JObj [(''result'', JNum 5), (''error'', JStr ''boom'')])]"
            and kvs = "[(''result'', JNum 5), (''error'', JStr ''boom'')]" and s' = "[]"]
  show ?thesis using h by simp
qed

section \<open>Calling a tool\<close>

lemma digit_char_simps:
  "digit_char 0 = CHR ''0''" "digit_char (Suc 0) = CHR ''1''" "digit_char 2 = CHR ''2''"
  "digit_char 3 = CHR ''3''" "digit_char 4 = CHR ''4''" "digit_char 5 = CHR ''5''"
  "digit_char 6 = CHR ''6''" "digit_char 7 = CHR ''7''" "digit_char 8 = CHR ''8''"
  "digit_char 9 = CHR ''9''"
  by code_simp+

lemma ankiRequest_world:
  "snd (ankiRequest be a p w) =
     \<lparr> backend_state = snd (be (backend_state w) (anki_post a (if p = JUndefined then JObj [] else p))),
       requests = requests w @ [anki_post a (if p = JUndefined then JObj [] else p)] \<rparr>"
  by (simp add: ankiRequest_def Let_def split: prod.splits http_response.splits)

lemma call_tool_addNote:
  "call_tool be ''addNote'' A w =
     (case ankiRequest be ''addNote'' (JObj [(''note'', A)]) w of
        (Inl e, w1) \<Rightarrow> (Inl e, w1)
      | (Inr createdNoteId, w1) \<Rightarrow>
          (case to_string createdNoteId of
             Inl e \<Rightarrow> (Inl e, w1)
           | Inr printed \<Rightarrow>
               (Inr \<lparr> toolResult =
                  ''Created note with the following ID: '' @ printed \<rparr>, w1)))"
  by (simp add: call_tool_def)

lemma call_tool_addNotes:
  "call_tool be ''addNotes'' A w =
     (case ankiRequest be ''addNotes'' A w of
        (Inl e, w1) \<Rightarrow> (Inl e, w1)
      | (Inr createdNoteIds, w1) \<Rightarrow>
          (case array_join createdNoteIds '', '' of
             Inl e \<Rightarrow> (Inl e, w1)
           | Inr joined \<Rightarrow>
               (Inr \<lparr> toolResult = ''Created notes with the following IDs: '' @ joined \<rparr>, w1)))"
  by (simp add: call_tool_def)

lemma call_tool_addNote_world:
  "snd (call_tool be ''addNote'' A w) = snd (ankiRequest be ''addNote'' (JObj [(''note'', A)]) w)"
  by (cases "ankiRequest be ''addNote'' (JObj [(''note'', A)]) w")
     (auto simp: call_tool_addNote split: sum.splits)

lemma call_tool_addNotes_world:
  "snd (call_tool be ''addNotes'' A w) = snd (ankiRequest be ''addNotes'' A w)"
  by (cases "ankiRequest be ''addNotes'' A w")
     (auto simp: call_tool_addNotes split: sum.splits)

lemma quote_literals:
  \<open>quote ''action'' = ''"action"''\<close>
  \<open>quote ''version'' = ''"version"''\<close>
  \<open>quote ''params'' = ''"params"''\<close>
  \<open>quote ''note'' = ''"note"''\<close>
  \<open>quote ''addNote'' = ''"addNote"''\<close>
  by (simp_all add: quote_def quote_char_def)

lemma show_int_6: "show_int 6 = ''6''"
  by code_simp

lemma body_addNote:
  assumes "stringify A = Some t"
  shows \<open>body (anki_post ''addNote'' (JObj [(''note'', A)]))
           = Some (''{"action":"addNote","version":6,"params":{"note":'' @ t @ ''}}'')\<close>
  using assms by (simp add: anki_post_def quote_literals show_int_6)

lemma collect_element_numbers:
  "collect (map element_string (map JNum ids)) = Inr (map show_int ids)"
  by (induction ids) (simp_all add: element_string_def)

lemma array_join_numbers:
  "array_join (JArr (map JNum ids)) sep = Inr (join_with sep (map show_int ids))"
  by (simp only: array_join_def jsval.case collect_element_numbers sum.case)

text \<open>
  C6: a call of \<^verbatim>\<open>addNote\<close> with the argument mapping \<open>A\<close> sends exactly one request, the
  envelope with action \<^verbatim>\<open>addNote\<close>, version 6 and params \<^verbatim>\<open>{note: A}\<close>; when the backend
  answers with a numeric id as \<^verbatim>\<open>result\<close>, the tool's text is
  \<^verbatim>\<open>Created note with the following ID: \<close> followed by that id in decimal. The arguments and
  the id are values on which the model is exact (numbers below \<open>2^53\<close> in magnitude).
\<close>

theorem addNote_wraps_arguments:
  \<open>length (requests (snd (call_tool be ''addNote'' A w))) = Suc (length (requests w))
   \<and> (exact_value A \<longrightarrow>
        requests (snd (call_tool be ''addNote'' A w))
          = requests w @ [anki_post ''addNote'' (JObj [(''note'', A)])]
        \<and> (stringify A = Some t \<longrightarrow>
             body (anki_post ''addNote'' (JObj [(''note'', A)]))
               = Some (''{"action":"addNote","version":6,"params":{"note":'' @ t @ ''}}''))
        \<and> (be (backend_state w) (anki_post ''addNote'' (JObj [(''note'', A)])) = (Json payload, s')
             \<and> get_property payload ''result'' = Inr (JNum n) \<and> \<bar>n\<bar> < 2 ^ 53 \<longrightarrow>
             fst (call_tool be ''addNote'' A w)
               = Inr \<lparr> toolResult = ''Created note with the following ID: '' @ show_int n \<rparr>))\<close>
proof (intro conjI impI)
  show "length (requests (snd (call_tool be ''addNote'' A w))) = Suc (length (requests w))"
    by (simp add: call_tool_addNote_world ankiRequest_requests)
  show "requests (snd (call_tool be ''addNote'' A w))
     = requests w @ [anki_post ''addNote'' (JObj [(''note'', A)])]"
    by (simp add: call_tool_addNote_world ankiRequest_requests)
next
  assume "stringify A = Some t"
  then show \<open>body (anki_post ''addNote'' (JObj [(''note'', A)]))
          = Some (''{"action":"addNote","version":6,"params":{"note":'' @ t @ ''}}'')\<close>
    by (rule body_addNote)
next
  assume h: "be (backend_state w) (anki_post ''addNote'' (JObj [(''note'', A)])) = (Json payload, s')
        \<and> get_property payload ''result'' = Inr (JNum n) \<and> \<bar>n\<bar> < 2 ^ 53"
  then have "ankiRequest be ''addNote'' (JObj [(''note'', A)]) w =
      (Inr (JNum n), \<lparr> backend_state = s',
         requests = requests w @ [anki_post ''addNote'' (JObj [(''note'', A)])] \<rparr>)"
    using ankiRequest_Json [of be w "''addNote''" "JObj [(''note'', A)]" payload s'] by simp
  then show "fst (call_tool be ''addNote'' A w)
          = Inr \<lparr> toolResult = ''Created note with the following ID: '' @ show_int n \<rparr>"
    by (simp add: call_tool_addNote)
qed

theorem addNote_wraps_arguments_witness:
  \<open>exact_value (JObj [(''deckName'', JStr ''D''), (''modelName'', JStr ''Basic''),
                      (''fields'', JObj [(''Front'', JStr ''Q''), (''Back'', JStr ''A'')])])
   \<and> stringify (JObj [(''deckName'', JStr ''D''), (''modelName'', JStr ''Basic''),
                    (''fields'', JObj [(''Front'', JStr ''Q''), (''Back'', JStr ''A'')])])
     = Some ''{"deckName":"D","modelName":"Basic","fields":{"Front":"Q","Back":"A"}}''
   \<and> scripted (backend_state (start [Json (JObj [(''result'', JNum 123), (''error'', JNull)])]))
        (anki_post ''addNote'' (JObj [(''note'',
           JObj [(''deckName'', JStr ''D''), (''modelName'', JStr ''Basic''),
                 (''fields'', JObj [(''Front'', JStr ''Q''), (''Back'', JStr ''A'')])])]))
       = (Json (JObj [(''result'', JNum 123), (''error'', JNull)]), [])
   \<and> get_property (JObj [(''result'', JNum 123), (''error'', JNull)]) ''result'' = Inr (JNum 123)
   \<and> \<bar>123 :: int\<bar> < 2 ^ 53
   \<and> map body (requests (snd (call_tool scripted ''addNote''
        (JObj [(''deckName'', JStr ''D''), (''modelName'', JStr ''Basic''),
               (''fields'', JObj [(''Front'', JStr ''Q''), (''Back'', JStr ''A'')])])
        (start [Json (JObj [(''result'', JNum 123), (''error'', JNull)])]))))
       = [Some ''{"action":"addNote","version":6,"params":{"note":{"deckName":"D","modelName":"Basic","fields":{"Front":"Q","Back":"A"}}}}'']
   \<and> fst (call_tool scripted ''addNote''
        (JObj [(''deckName'', JStr ''D''), (''modelName'', JStr ''Basic''),
               (''fields'', JObj [(''Front'', JStr ''Q''), (''Back'', JStr ''A'')])])
        (start [Json (JObj [(''result'', JNum 123), (''error'', JNull)])]))
       = Inr \<lparr> toolResult = ''Created note with the following ID: 123'' \<rparr>\<close>
proof -
  let ?A = "JObj [(''deckName'', JStr ''D''), (''modelName'', JStr ''Basic''),
                  (''fields'', JObj [(''Front'', JStr ''Q''), (''Back'', JStr ''A'')])]"
  let ?w = "start [Json (JObj [(''result'', JNum 123), (''error'', JNull)])]"
  have e: "exact_value ?A"
    by simp
  have s: \<open>stringify ?A
     = Some ''{"deckName":"D","modelName":"Basic","fields":{"Front":"Q","Back":"A"}}''\<close>
    by code_simp
  have b: "scripted (backend_state ?w) (anki_post ''addNote'' (JObj [(''note'', ?A)]))
       = (Json (JObj [(''result'', JNum 123), (''error'', JNull)]), [])"
    by (simp add: scripted_def start_def)
  have g: "get_property (JObj [(''result'', JNum 123), (''error'', JNull)]) ''result'' = Inr (JNum 123)"
    by simp
  have n: "show_int 123 = ''123''"
    by code_simp
  from addNote_wraps_arguments
         [where be = scripted and A = ?A and w = ?w and n = 123 and s' = "[]"
            and payload = "JObj [(''result'', JNum 123), (''error'', JNull)]"
            and t = \<open>''{"deckName":"D","modelName":"Basic","fields":{"Front":"Q","Back":"A"}}''\<close>]
  show ?thesis
    using e s b g n by (simp add: start_def)
qed

text \<open>
  C7, as the claim states it, fails: with the arguments \<^verbatim>\<open>{notes: [note]}\<close> the params of the
  request are the whole argument object, \<^verbatim>\<open>{"notes":[...]}\<close>, and not the array itself, whose
  envelope would read \<^verbatim>\<open>"params":[...]\<close>.
\<close>
theorem addNotes_params_counterexample:
  \<open>map body (requests (snd (call_tool scripted ''addNotes''
        (JObj [(''notes'', JArr [JObj [(''deckName'', JStr ''D''), (''modelName'', JStr ''Basic''),
                                       (''fields'', JObj [(''Front'', JStr ''Q'')])]])])
        (start [Json (JObj [(''result'', JArr [JNum 7]), (''error'', JNull)])]))))
     = [Some ''{"action":"addNotes","version":6,"params":{"notes":[{"deckName":"D","modelName":"Basic","fields":{"Front":"Q"}}]}}'']
   \<and> body (anki_post ''addNotes''
        (JArr [JObj [(''deckName'', JStr ''D''), (''modelName'', JStr ''Basic''),
                     (''fields'', JObj [(''Front'', JStr ''Q'')])]]))
     = Some ''{"action":"addNotes","version":6,"params":[{"deckName":"D","modelName":"Basic","fields":{"Front":"Q"}}]}''\<close>
  by code_simp

text \<open>
  C7, amended: a call of \<^verbatim>\<open>addNotes\<close> with an argument object sends exactly one request, with
  action \<^verbatim>\<open>addNotes\<close> and the whole argument object (the notes array still under its key
  \<^verbatim>\<open>notes\<close>) as params; when the backend answers with an array of numeric ids, the tool's text
  is \<^verbatim>\<open>Created notes with the following IDs: \<close> followed by the ids joined by a comma and
  a space. The arguments and the ids are values on which the model is exact (numbers below
  \<open>2^53\<close> in magnitude).
\<close>

theorem addNotes_passes_arguments:
  \<open>length (requests (snd (call_tool be ''addNotes'' (JObj kvs) w))) = Suc (length (requests w))
   \<and> (exact_value (JObj kvs) \<longrightarrow>
        requests (snd (call_tool be ''addNotes'' (JObj kvs) w))
          = requests w @ [anki_post ''addNotes'' (JObj kvs)]
        \<and> (be (backend_state w) (anki_post ''addNotes'' (JObj kvs)) = (Json payload, s')
             \<and> get_property payload ''result'' = Inr (JArr (map JNum ids))
             \<and> list_all (\<lambda>i. \<bar>i\<bar> < 2 ^ 53) ids \<longrightarrow>
             fst (call_tool be ''addNotes'' (JObj kvs) w)
               = Inr \<lparr> toolResult = ''Created notes with the following IDs: ''
                                      @ join_with '', '' (map show_int ids) \<rparr>))\<close>
proof (intro conjI impI)
  show "length (requests (snd (call_tool be ''addNotes'' (JObj kvs) w))) = Suc (length (requests w))"
    by (simp add: call_tool_addNotes_world ankiRequest_requests)
  show "requests (snd (call_tool be ''addNotes'' (JObj kvs) w))
     = requests w @ [anki_post ''addNotes'' (JObj kvs)]"
    by (simp add: call_tool_addNotes_world ankiRequest_requests)
next
  assume h: "be (backend_state w) (anki_post ''addNotes'' (JObj kvs)) = (Json payload, s')
        \<and> get_property payload ''result'' = Inr (JArr (map JNum ids))
        \<and> list_all (\<lambda>i. \<bar>i\<bar> < 2 ^ 53) ids"
  then have "ankiRequest be ''addNotes'' (JObj kvs) w =
      (Inr (JArr (map JNum ids)), \<lparr> backend_state = s',
         requests = requests w @ [anki_post ''addNotes'' (JObj kvs)] \<rparr>)"
    using ankiRequest_Json [of be w "''addNotes''" "JObj kvs" payload s'] by simp
  then show "fst (call_tool be ''addNotes'' (JObj kvs) w)
          = Inr \<lparr> toolResult = ''Created notes with the following IDs: ''
                                 @ join_with '', '' (map show_int ids) \<rparr>"
    by (simp add: call_tool_addNotes array_join_numbers)
qed

theorem addNotes_passes_arguments_witness:
  \<open>exact_value (JObj [(''notes'', JArr [JObj [], JObj [], JObj []])])
   \<and> scripted (backend_state (start [Json (JObj [(''result'', JArr (map JNum [7, 8, 9])), (''error'', JNull)])]))
        (anki_post ''addNotes'' (JObj [(''notes'', JArr [JObj [], JObj [], JObj []])]))
       = (Json (JObj [(''result'', JArr (map JNum [7, 8, 9])), (''error'', JNull)]), [])
   \<and> get_property (JObj [(''result'', JArr (map JNum [7, 8, 9])), (''error'', JNull)]) ''result''
       = Inr (JArr (map JNum [7, 8, 9]))
   \<and> list_all (\<lambda>i. \<bar>i\<bar> < 2 ^ 53) [7, 8, 9 :: int]
   \<and> map body (requests (snd (call_tool scripted ''addNotes'' (JObj [(''notes'', JArr [JObj [], JObj [], JObj []])])
        (start [Json (JObj [(''result'', JArr (map JNum [7, 8, 9])), (''error'', JNull)])]))))
       = [Some ''{"action":"addNotes","version":6,"params":{"notes":[{},{},{}]}}'']
   \<and> fst (call_tool scripted ''addNotes'' (JObj [(''notes'', JArr [JObj [], JObj [], JObj []])])
        (start [Json (JObj [(''result'', JArr (map JNum [7, 8, 9])), (''error'', JNull)])]))
       = Inr \<lparr> toolResult = ''Created notes with the following IDs: 7, 8, 9'' \<rparr>\<close>
proof -
  let ?A = "[(''notes'', JArr [JObj [], JObj [], JObj []])]"
  let ?p = "JObj [(''result'', JArr (map JNum [7, 8, 9])), (''error'', JNull)]"
  let ?w = "start [Json ?p]"
  have e: "exact_value (JObj ?A)"
    by simp
  have b: "scripted (backend_state ?w) (anki_post ''addNotes'' (JObj ?A)) = (Json ?p, [])"
    by (simp add: scripted_def start_def)
  have g: "get_property ?p ''result'' = Inr (JArr (map JNum [7, 8, 9]))"
    by simp
  have r: "list_all (\<lambda>i. \<bar>i\<bar> < 2 ^ 53) [7, 8, 9 :: int]"
    by simp
  have n: "map show_int [7, 8, 9] = [''7'', ''8'', ''9'']"
    by code_simp
  have bd: \<open>body (anki_post ''addNotes'' (JObj ?A))
      = Some ''{"action":"addNotes","version":6,"params":{"notes":[{},{},{}]}}''\<close>
    by code_simp
  from addNotes_passes_arguments
         [where be = scripted and kvs = ?A and w = ?w and ids = "[7, 8, 9]" and s' = "[]"
            and payload = ?p]
  show ?thesis
    using e b g r n bd by (simp add: start_def)
qed

text \<open>
  C2: the code at \<^verbatim>\<open>call("getModel", {})\<close>. The guard \<^verbatim>\<open>!request.params.arguments\<close> lets the
  empty object through, so the call does not fail: it sends \<^verbatim>\<open>findModelsByName\<close> with
  \<^verbatim>\<open>modelNames: [undefined]\<close>, written \<^verbatim>\<open>[null]\<close>, and returns a text about the model
  \<^verbatim>\<open>undefined\<close>.
\<close>
theorem getModel_without_modelName:
  \<open>call_tool scripted ''getModel'' (JObj [])
      (start [Json (JObj [(''result'', JArr []), (''error'', JNull)])])
   = (Inr \<lparr> toolResult = ''Here is the undefined in the user's Anki collection: []'' \<rparr>,
      \<lparr> backend_state = [],
        requests = [\<lparr> url = ''http://localhost:8765'', http_method = ''POST'',
                      body = Some ''{"action":"findModelsByName","version":6,"params":{"modelNames":[null]}}'' \<rparr>] \<rparr>)\<close>
  by code_simp

text \<open>The guard does stop a call that has no argument object at all; an argument object
  without \<^verbatim>\<open>modelName\<close> always reaches the backend.\<close>

lemma getModel_no_arguments:
  "call_tool be ''getModel'' JUndefined w = (Inl (Error ''getModel requires a model name''), w)"
  by (simp add: call_tool_def)

lemma getModel_missing_modelName:
  assumes "map_of kvs ''modelName'' = None"
  shows "requests (snd (call_tool be ''getModel'' (JObj kvs) w))
     = requests w @ [anki_post ''findModelsByName'' (JObj [(''modelNames'', JArr [JUndefined])])]"
  using assms
  by (cases "ankiRequest be ''findModelsByName'' (JObj [(''modelNames'', JArr [JUndefined])]) w")
     (auto simp: call_tool_def ankiRequest_requests split: sum.splits
           dest: arg_cong [where f = "\<lambda>x. requests (snd x)"])

lemma call_tool_listDecks:
  "call_tool be ''listDecks'' a w =
     (case ankiRequest be ''deckNames'' JUndefined w of
        (Inl e, w1) \<Rightarrow> (Inl e, w1)
      | (Inr decks, w1) \<Rightarrow>
          (case array_join decks '', '' of
             Inl e \<Rightarrow> (Inl e, w1)
           | Inr joined \<Rightarrow>
               (Inr \<lparr> toolResult =
                  ''Here is a list of the decks in the user's Anki collection: '' @ joined \<rparr>, w1)))"
  by (simp add: call_tool_def)

lemma call_tool_listModels:
  "call_tool be ''listModels'' a w =
     (case ankiRequest be ''modelNames'' JUndefined w of
        (Inl e, w1) \<Rightarrow> (Inl e, w1)
      | (Inr models, w1) \<Rightarrow>
          (case to_string models of
             Inl e \<Rightarrow> (Inl e, w1)
           | Inr printed \<Rightarrow>
               (Inr \<lparr> toolResult =
                  ''Here is the list of note models in the user's Anki collection: ''
                  @ printed \<rparr>, w1)))"
  by (simp add: call_tool_def)

lemma call_tool_listDecks_world:
  "snd (call_tool be ''listDecks'' a w) = snd (ankiRequest be ''deckNames'' JUndefined w)"
  by (cases "ankiRequest be ''deckNames'' JUndefined w")
     (auto simp: call_tool_listDecks split: sum.splits)

lemma call_tool_listModels_world:
  "snd (call_tool be ''listModels'' a w) = snd (ankiRequest be ''modelNames'' JUndefined w)"
  by (cases "ankiRequest be ''modelNames'' JUndefined w")
     (auto simp: call_tool_listModels split: sum.splits)

lemma call_tool_listDecks_outcome:
  "fst (call_tool be ''listDecks'' a w) =
     (case fst (ankiRequest be ''deckNames'' JUndefined w) of
        Inl e \<Rightarrow> Inl e
      | Inr decks \<Rightarrow>
          (case array_join decks '', '' of
             Inl e \<Rightarrow> Inl e
           | Inr joined \<Rightarrow>
               Inr \<lparr> toolResult =
                  ''Here is a list of the decks in the user's Anki collection: '' @ joined \<rparr>))"
  by (cases "ankiRequest be ''deckNames'' JUndefined w")
     (auto simp: call_tool_listDecks split: sum.splits)

lemma call_tool_listModels_outcome:
  "fst (call_tool be ''listModels'' a w) =
     (case fst (ankiRequest be ''modelNames'' JUndefined w) of
        Inl e \<Rightarrow> Inl e
      | Inr models \<Rightarrow>
          (case to_string models of
             Inl e \<Rightarrow> Inl e
           | Inr printed \<Rightarrow>
               Inr \<lparr> toolResult =
                  ''Here is the list of note models in the user's Anki collection: ''
                  @ printed \<rparr>))"
  by (cases "ankiRequest be ''modelNames'' JUndefined w")
     (auto simp: call_tool_listModels split: sum.splits)

lemma list_tools_same_state:
  assumes "backend_state w = backend_state w'"
  shows "fst (call_tool be ''listDecks'' a w) = fst (call_tool be ''listDecks'' a' w')"
    and "fst (call_tool be ''listModels'' a w) = fst (call_tool be ''listModels'' a' w')"
  using assms
  by (simp_all add: call_tool_listDecks_outcome call_tool_listModels_outcome ankiRequest_outcome)

lemma repeat_read_only:
  assumes world: "\<And>w. snd (call_tool be tool a w) =
                     \<lparr> backend_state = snd (be (backend_state w) req),
                       requests = requests w @ [req] \<rparr>"
    and same: "\<And>w w'. backend_state w = backend_state w' \<Longrightarrow>
                 fst (call_tool be tool a w) = fst (call_tool be tool a w')"
    and ro: "snd (be (backend_state w) req) = backend_state w"
  shows "call_repeatedly be tool a n w =
           (replicate n (fst (call_tool be tool a w)),
            \<lparr> backend_state = backend_state w, requests = requests w @ replicate n req \<rparr>)"
  using ro
proof (induction n arbitrary: w)
  case 0
  then show ?case by simp
next
  case (Suc n)
  obtain r w1 where c: "call_tool be tool a w = (r, w1)"
    by (cases "call_tool be tool a w")
  from world [of w] c Suc.prems
  have w1: "w1 = \<lparr> backend_state = backend_state w, requests = requests w @ [req] \<rparr>"
    by simp
  then have st: "backend_state w1 = backend_state w" by simp
  with Suc.prems have "snd (be (backend_state w1) req) = backend_state w1" by simp
  from Suc.IH [OF this]
  have ih: "call_repeatedly be tool a n w1 =
           (replicate n (fst (call_tool be tool a w1)),
            \<lparr> backend_state = backend_state w1, requests = requests w1 @ replicate n req \<rparr>)" .
  have r: "fst (call_tool be tool a w1) = r"
    using same [OF st] c by simp
  show ?case
    using c ih r w1 by (simp add: replicate_app_Cons_same)
qed

lemma body_deckNames:
  \<open>body (anki_post ''deckNames'' (JObj [])) = Some ''{"action":"deckNames","version":6,"params":{}}''\<close>
  by code_simp

lemma body_modelNames:
  \<open>body (anki_post ''modelNames'' (JObj [])) = Some ''{"action":"modelNames","version":6,"params":{}}''\<close>
  by code_simp

text \<open>
  C8: \<^verbatim>\<open>listDecks\<close> and \<^verbatim>\<open>listModels\<close> each send exactly one request, the query
  \<^verbatim>\<open>deckNames\<close> or \<^verbatim>\<open>modelNames\<close> with empty params, and nothing else. Their outcome depends
  on the world only through the backend's state: two calls at the same backend state give
  the same outcome, whatever was sent before and whatever arguments are passed. Against a
  backend whose state the query leaves as it is, \<open>n\<close> calls in a row give \<open>n\<close> times the same
  outcome and leave the backend's state unchanged.
\<close>
theorem list_tools_read_only:
  \<open>(requests (snd (call_tool be ''listDecks'' a w)) = requests w @ [anki_post ''deckNames'' (JObj [])]
     \<and> body (anki_post ''deckNames'' (JObj [])) = Some ''{"action":"deckNames","version":6,"params":{}}''
     \<and> requests (snd (call_tool be ''listModels'' a w)) = requests w @ [anki_post ''modelNames'' (JObj [])]
     \<and> body (anki_post ''modelNames'' (JObj [])) = Some ''{"action":"modelNames","version":6,"params":{}}'')
   \<and> (backend_state w = backend_state w' \<longrightarrow>
        fst (call_tool be ''listDecks'' a w) = fst (call_tool be ''listDecks'' a' w')
        \<and> fst (call_tool be ''listModels'' a w) = fst (call_tool be ''listModels'' a' w'))
   \<and> (snd (be (backend_state w) (anki_post ''deckNames'' (JObj []))) = backend_state w \<longrightarrow>
        call_repeatedly be ''listDecks'' a n w =
          (replicate n (fst (call_tool be ''listDecks'' a w)),
           \<lparr> backend_state = backend_state w,
             requests = requests w @ replicate n (anki_post ''deckNames'' (JObj [])) \<rparr>))
   \<and> (snd (be (backend_state w) (anki_post ''modelNames'' (JObj []))) = backend_state w \<longrightarrow>
        call_repeatedly be ''listModels'' a n w =
          (replicate n (fst (call_tool be ''listModels'' a w)),
           \<lparr> backend_state = backend_state w,
             requests = requests w @ replicate n (anki_post ''modelNames'' (JObj [])) \<rparr>))\<close>
proof (intro conjI impI)
  show "requests (snd (call_tool be ''listDecks'' a w)) = requests w @ [anki_post ''deckNames'' (JObj [])]"
    by (simp add: call_tool_listDecks_world ankiRequest_requests)
  show "requests (snd (call_tool be ''listModels'' a w)) = requests w @ [anki_post ''modelNames'' (JObj [])]"
    by (simp add: call_tool_listModels_world ankiRequest_requests)
  show \<open>body (anki_post ''deckNames'' (JObj [])) = Some ''{"action":"deckNames","version":6,"params":{}}''\<close>
    by (rule body_deckNames)
  show \<open>body (anki_post ''modelNames'' (JObj [])) = Some ''{"action":"modelNames","version":6,"params":{}}''\<close>
    by (rule body_modelNames)
next
  assume s: "backend_state w = backend_state w'"
  show "fst (call_tool be ''listDecks'' a w) = fst (call_tool be ''listDecks'' a' w')"
    by (rule list_tools_same_state(1) [OF s])
  show "fst (call_tool be ''listModels'' a w) = fst (call_tool be ''listModels'' a' w')"
    by (rule list_tools_same_state(2) [OF s])
next
  assume ro: "snd (be (backend_state w) (anki_post ''deckNames'' (JObj []))) = backend_state w"
  show "call_repeatedly be ''listDecks'' a n w =
          (replicate n (fst (call_tool be ''listDecks'' a w)),
           \<lparr> backend_state = backend_state w,
             requests = requests w @ replicate n (anki_post ''deckNames'' (JObj [])) \<rparr>)"
  proof (rule repeat_read_only [where be = be and w = w and req = "anki_post ''deckNames'' (JObj [])", OF _ _ ro])
    show "snd (call_tool be ''listDecks'' a v) =
            \<lparr> backend_state = snd (be (backend_state v) (anki_post ''deckNames'' (JObj []))),
              requests = requests v @ [anki_post ''deckNames'' (JObj [])] \<rparr>" for v
      by (simp add: call_tool_listDecks_world ankiRequest_world)
    show "backend_state v = backend_state v' \<Longrightarrow>
            fst (call_tool be ''listDecks'' a v) = fst (call_tool be ''listDecks'' a v')" for v v'
      by (rule list_tools_same_state(1))
  qed
next
  assume ro: "snd (be (backend_state w) (anki_post ''modelNames'' (JObj []))) = backend_state w"
  show "call_repeatedly be ''listModels'' a n w =
          (replicate n (fst (call_tool be ''listModels'' a w)),
           \<lparr> backend_state = backend_state w,
             requests = requests w @ replicate n (anki_post ''modelNames'' (JObj [])) \<rparr>)"
  proof (rule repeat_read_only [where be = be and w = w and req = "anki_post ''modelNames'' (JObj [])", OF _ _ ro])
    show "snd (call_tool be ''listModels'' a v) =
            \<lparr> backend_state = snd (be (backend_state v) (anki_post ''modelNames'' (JObj []))),
              requests = requests v @ [anki_post ''modelNames'' (JObj [])] \<rparr>" for v
      by (simp add: call_tool_listModels_world ankiRequest_world)
    show "backend_state v = backend_state v' \<Longrightarrow>
            fst (call_tool be ''listModels'' a v) = fst (call_tool be ''listModels'' a v')" for v v'
      by (rule list_tools_same_state(2))
  qed
qed

theorem list_tools_read_only_witness:
  \<open>snd (answering (backend_state (start (JArr [JStr ''Default'', JStr ''Spanish''])))
          (anki_post ''deckNames'' (JObj [])))
     = backend_state (start (JArr [JStr ''Default'', JStr ''Spanish'']))
   \<and> snd (answering (backend_state (start (JArr [JStr ''Default'', JStr ''Spanish''])))
          (anki_post ''modelNames'' (JObj [])))
     = backend_state (start (JArr [JStr ''Default'', JStr ''Spanish'']))
   \<and> backend_state (start (JArr [JStr ''Default'', JStr ''Spanish'']))
     = backend_state \<lparr> backend_state = JArr [JStr ''Default'', JStr ''Spanish''],
                        requests = [anki_post ''addNote'' (JObj [])] \<rparr>
   \<and> fst (call_tool answering ''listDecks'' JUndefined
            \<lparr> backend_state = JArr [JStr ''Default'', JStr ''Spanish''],
              requests = [anki_post ''addNote'' (JObj [])] \<rparr>)
     = Inr \<lparr> toolResult = ''Here is a list of the decks in the user's Anki collection: Default, Spanish'' \<rparr>
   \<and> call_repeatedly answering ''listDecks'' (JObj []) 3 (start (JArr [JStr ''Default'', JStr ''Spanish'']))
     = (replicate 3 (Inr \<lparr> toolResult =
            ''Here is a list of the decks in the user's Anki collection: Default, Spanish'' \<rparr>),
        \<lparr> backend_state = JArr [JStr ''Default'', JStr ''Spanish''],
          requests = replicate 3 (anki_post ''deckNames'' (JObj [])) \<rparr>)
   \<and> call_repeatedly answering ''listModels'' (JObj []) 3 (start (JArr [JStr ''Default'', JStr ''Spanish'']))
     = (replicate 3 (Inr \<lparr> toolResult =
            ''Here is the list of note models in the user's Anki collection: Default,Spanish'' \<rparr>),
        \<lparr> backend_state = JArr [JStr ''Default'', JStr ''Spanish''],
          requests = replicate 3 (anki_post ''modelNames'' (JObj [])) \<rparr>)\<close>
proof -
  let ?s = "JArr [JStr ''Default'', JStr ''Spanish'']"
  let ?w' = "\<lparr> backend_state = ?s, requests = [anki_post ''addNote'' (JObj [])] \<rparr>"
  have d: "fst (call_tool answering ''listDecks'' (JObj []) (start ?s))
     = Inr \<lparr> toolResult = ''Here is a list of the decks in the user's Anki collection: Default, Spanish'' \<rparr>"
    by (simp add: call_tool_listDecks_outcome ankiRequest_outcome answering_def array_join_def
                  element_string_def start_def)
  have m: "fst (call_tool answering ''listModels'' (JObj []) (start ?s))
     = Inr \<lparr> toolResult = ''Here is the list of note models in the user's Anki collection: Default,Spanish'' \<rparr>"
    by (simp add: call_tool_listModels_outcome ankiRequest_outcome answering_def start_def)
  from list_tools_read_only
         [where be = answering and w = "start ?s" and w' = ?w' and a = "JObj []" and a' = JUndefined
            and n = 3]
  show ?thesis
    using d m by (simp add: answering_def start_def)
qed

lemma entries_id_mapping: "entries (id_mapping kvs) = Inr (map (\<lambda>(k, i). (k, JNum i)) kvs)"
  by (simp add: id_mapping_def)

lemma collect_deck_resources:
  "collect (map deck_resource (map (\<lambda>(k, i). (k, JNum i)) kvs))
     = Inr (map (\<lambda>(k, i). \<lparr> uri = ''anki://decks/'' @ show_int i, name = k \<rparr>) kvs)"
  by (induction kvs) (simp_all add: deck_resource_def split_def)

lemma collect_model_resources:
  "collect (map model_resource (map (\<lambda>(k, i). (k, JNum i)) kvs))
     = Inr (map (\<lambda>(k, i). \<lparr> uri = ''anki://models/'' @ show_int i, name = k \<rparr>) kvs)"
  by (induction kvs) (simp_all add: model_resource_def split_def)

lemma list_resources_of_mappings:
  assumes d: "be (backend_state w) (anki_post ''deckNamesAndIds'' (JObj [])) = (Json p1, s1)"
    and dr: "get_property p1 ''result'' = Inr (id_mapping decks)"
    and m: "be s1 (anki_post ''modelNamesAndIds'' (JObj [])) = (Json p2, s2)"
    and mr: "get_property p2 ''result'' = Inr (id_mapping models)"
  shows "list_resources be w =
     (Inr \<lparr> resources =
          map (\<lambda>(k, i). \<lparr> uri = ''anki://decks/'' @ show_int i, name = k \<rparr>) decks
        @ map (\<lambda>(k, i). \<lparr> uri = ''anki://models/'' @ show_int i, name = k \<rparr>) models \<rparr>,
      \<lparr> backend_state = s2,
        requests = requests w @ [anki_post ''deckNamesAndIds'' (JObj []),
                                 anki_post ''modelNamesAndIds'' (JObj [])] \<rparr>)"
proof -
  let ?w1 = "\<lparr> backend_state = s1, requests = requests w @ [anki_post ''deckNamesAndIds'' (JObj [])] \<rparr>"
  have a1: "ankiRequest be ''deckNamesAndIds'' JUndefined w = (Inr (id_mapping decks), ?w1)"
    using ankiRequest_Json [of be w "''deckNamesAndIds''" JUndefined p1 s1] d dr by simp
  have a2: "ankiRequest be ''modelNamesAndIds'' JUndefined ?w1 =
      (Inr (id_mapping models),
       \<lparr> backend_state = s2,
         requests = requests w @ [anki_post ''deckNamesAndIds'' (JObj []),
                                  anki_post ''modelNamesAndIds'' (JObj [])] \<rparr>)"
    using ankiRequest_Json [of be ?w1 "''modelNamesAndIds''" JUndefined p2 s2] m mr by simp
  show ?thesis
    by (simp only: list_resources_def a1 a2 entries_id_mapping
          collect_deck_resources collect_model_resources prod.case sum.case)
qed

lemma distinct_prefixed_ids:
  assumes "distinct (map snd kvs)"
  shows "distinct (map (\<lambda>(k, i). p @ show_int i) (kvs :: (string \<times> int) list))"
proof -
  have "inj_on (\<lambda>i. p @ show_int i) (set (map snd kvs))"
    by (rule inj_onI) (simp add: show_int_inj)
  with assms have dm: "distinct (map (\<lambda>i. p @ show_int i) (map snd kvs))"
    by (simp only: distinct_map simp_thms)
  have eq: "map (\<lambda>i. p @ show_int i) (map snd kvs) = map (\<lambda>(k, i). p @ show_int i) kvs"
    by (simp add: split_def comp_def)
  from dm show ?thesis unfolding eq .
qed

lemma deck_uri_not_model_uri: "''anki://decks/'' @ x \<noteq> ''anki://models/'' @ y"
  by simp

section \<open>Listing resources\<close>

text \<open>
  C3, as the claim states it, fails: the backend reports two deck names with the same id,
  \<^verbatim>\<open>{A: 1, B: 1}\<close>, and the listing holds the URI \<^verbatim>\<open>anki://decks/1\<close> twice.
\<close>
theorem list_resources_duplicate_counterexample:
  "list_resources scripted
     (start [Json (JObj [(''result'', JObj [(''A'', JNum 1), (''B'', JNum 1)]), (''error'', JNull)]),
             Json (JObj [(''result'', JObj [(''Basic'', JNum 5)]), (''error'', JNull)])])
   = (Inr \<lparr> resources = [\<lparr> uri = ''anki://decks/1'', name = ''A'' \<rparr>,
                          \<lparr> uri = ''anki://decks/1'', name = ''B'' \<rparr>,
                          \<lparr> uri = ''anki://models/5'', name = ''Basic'' \<rparr>] \<rparr>,
      \<lparr> backend_state = [],
        requests = [anki_post ''deckNamesAndIds'' (JObj []),
                    anki_post ''modelNamesAndIds'' (JObj [])] \<rparr>)
   \<and> \<not> distinct (listed_uris (fst (list_resources scripted
     (start [Json (JObj [(''result'', JObj [(''A'', JNum 1), (''B'', JNum 1)]), (''error'', JNull)]),
             Json (JObj [(''result'', JObj [(''Basic'', JNum 5)]), (''error'', JNull)])]))))"
  by code_simp

text \<open>
  C3, amended: when the two enumeration calls return name-to-id mappings, the listing is one
  entry per pair of the deck mapping, with URI \<^verbatim>\<open>anki://decks/<id>\<close> and the key as name, in
  the mapping's enumeration order, followed by one entry per pair of the model mapping, with
  URI \<^verbatim>\<open>anki://models/<id>\<close>. The URIs are pairwise distinct provided that no id occurs twice
  in the deck mapping and no id occurs twice in the model mapping. The ids are integers below
  \<open>2^53\<close> in magnitude, and the enumeration order is that of \<^verbatim>\<open>Object.entries\<close> on the decoded
  mapping, which is the order of the pairs of a \<open>JObj\<close>.
\<close>

theorem list_resources_entries:
  "be (backend_state w) (anki_post ''deckNamesAndIds'' (JObj [])) = (Json p1, s1)
   \<and> get_property p1 ''result'' = Inr (id_mapping decks)
   \<and> be s1 (anki_post ''modelNamesAndIds'' (JObj [])) = (Json p2, s2)
   \<and> get_property p2 ''result'' = Inr (id_mapping models)
   \<and> list_all (\<lambda>i. \<bar>i\<bar> < 2 ^ 53) (map snd decks @ map snd models)
   \<longrightarrow>
     fst (list_resources be w) =
       Inr \<lparr> resources =
            map (\<lambda>(k, i). \<lparr> uri = ''anki://decks/'' @ show_int i, name = k \<rparr>) decks
          @ map (\<lambda>(k, i). \<lparr> uri = ''anki://models/'' @ show_int i, name = k \<rparr>) models \<rparr>
     \<and> length (listed_uris (fst (list_resources be w))) = length decks + length models
     \<and> (distinct (map snd decks) \<and> distinct (map snd models) \<longrightarrow>
          distinct (listed_uris (fst (list_resources be w))))"
proof (intro impI)
  assume h: "be (backend_state w) (anki_post ''deckNamesAndIds'' (JObj [])) = (Json p1, s1)
   \<and> get_property p1 ''result'' = Inr (id_mapping decks)
   \<and> be s1 (anki_post ''modelNamesAndIds'' (JObj [])) = (Json p2, s2)
   \<and> get_property p2 ''result'' = Inr (id_mapping models)
   \<and> list_all (\<lambda>i. \<bar>i\<bar> < 2 ^ 53) (map snd decks @ map snd models)"
  then have l: "fst (list_resources be w) =
       Inr \<lparr> resources =
            map (\<lambda>(k, i). \<lparr> uri = ''anki://decks/'' @ show_int i, name = k \<rparr>) decks
          @ map (\<lambda>(k, i). \<lparr> uri = ''anki://models/'' @ show_int i, name = k \<rparr>) models \<rparr>"
    using list_resources_of_mappings [of be w p1 s1 decks p2 s2 models] by simp
  have u: "listed_uris (fst (list_resources be w)) =
        map (\<lambda>(k, i). ''anki://decks/'' @ show_int i) decks
      @ map (\<lambda>(k, i). ''anki://models/'' @ show_int i) models"
    by (simp add: l listed_uris_def split_def comp_def)
  have dis: "distinct (listed_uris (fst (list_resources be w)))"
    if "distinct (map snd decks) \<and> distinct (map snd models)"
  proof -
    have dj: "set (map (\<lambda>(k, i). ''anki://decks/'' @ show_int i) decks)
        \<inter> set (map (\<lambda>(k, i). ''anki://models/'' @ show_int i) models) = {}"
      using deck_uri_not_model_uri by (auto simp: split_def)
    have d1: "distinct (map (\<lambda>(k, i). ''anki://decks/'' @ show_int i) decks)"
      using that by (simp only: distinct_prefixed_ids)
    have d2: "distinct (map (\<lambda>(k, i). ''anki://models/'' @ show_int i) models)"
      using that by (simp only: distinct_prefixed_ids)
    from d1 d2 dj show ?thesis
      by (simp only: u distinct_append simp_thms)
  qed
  from l u dis show "fst (list_resources be w) =
       Inr \<lparr> resources =
            map (\<lambda>(k, i). \<lparr> uri = ''anki://decks/'' @ show_int i, name = k \<rparr>) decks
          @ map (\<lambda>(k, i). \<lparr> uri = ''anki://models/'' @ show_int i, name = k \<rparr>) models \<rparr>
     \<and> length (listed_uris (fst (list_resources be w))) = length decks + length models
     \<and> (distinct (map snd decks) \<and> distinct (map snd models) \<longrightarrow>
          distinct (listed_uris (fst (list_resources be w))))"
    by simp
qed

theorem list_resources_entries_witness:
  "scripted (backend_state (start
       [Json (JObj [(''result'', JObj [(''Default'', JNum 1), (''Spanish'', JNum 1700000000000)]),
                    (''error'', JNull)]),
        Json (JObj [(''result'', JObj [(''Basic'', JNum 1)]), (''error'', JNull)])]))
     (anki_post ''deckNamesAndIds'' (JObj []))
    = (Json (JObj [(''result'', JObj [(''Default'', JNum 1), (''Spanish'', JNum 1700000000000)]),
                   (''error'', JNull)]),
       [Json (JObj [(''result'', JObj [(''Basic'', JNum 1)]), (''error'', JNull)])])
   \<and> get_property (JObj [(''result'', JObj [(''Default'', JNum 1), (''Spanish'', JNum 1700000000000)]),
                         (''error'', JNull)]) ''result''
      = Inr (id_mapping [(''Default'', 1), (''Spanish'', 1700000000000)])
   \<and> scripted [Json (JObj [(''result'', JObj [(''Basic'', JNum 1)]), (''error'', JNull)])]
        (anki_post ''modelNamesAndIds'' (JObj []))
      = (Json (JObj [(''result'', JObj [(''Basic'', JNum 1)]), (''error'', JNull)]), [])
   \<and> get_property (JObj [(''result'', JObj [(''Basic'', JNum 1)]), (''error'', JNull)]) ''result''
      = Inr (id_mapping [(''Basic'', 1)])
   \<and> list_all (\<lambda>i. \<bar>i\<bar> < 2 ^ 53)
        (map snd [(''Default'', 1 :: int), (''Spanish'', 1700000000000)]
         @ map snd [(''Basic'', 1 :: int)])
   \<and> distinct (map snd [(''Default'', 1 :: int), (''Spanish'', 1700000000000)])
   \<and> distinct (map snd [(''Basic'', 1 :: int)])
   \<and> fst (list_resources scripted (start
       [Json (JObj [(''result'', JObj [(''Default'', JNum 1), (''Spanish'', JNum 1700000000000)]),
                    (''error'', JNull)]),
        Json (JObj [(''result'', JObj [(''Basic'', JNum 1)]), (''error'', JNull)])]))
      = Inr \<lparr> resources = [\<lparr> uri = ''anki://decks/1'', name = ''Default'' \<rparr>,
                             \<lparr> uri = ''anki://decks/1700000000000'', name = ''Spanish'' \<rparr>,
                             \<lparr> uri = ''anki://models/1'', name = ''Basic'' \<rparr>] \<rparr>
   \<and> distinct (listed_uris (fst (list_resources scripted (start
       [Json (JObj [(''result'', JObj [(''Default'', JNum 1), (''Spanish'', JNum 1700000000000)]),
                    (''error'', JNull)]),
        Json (JObj [(''result'', JObj [(''Basic'', JNum 1)]), (''error'', JNull)])]))))"
proof -
  let ?p1 = "JObj [(''result'', JObj [(''Default'', JNum 1), (''Spanish'', JNum 1700000000000)]),
                   (''error'', JNull)]"
  let ?p2 = "JObj [(''result'', JObj [(''Basic'', JNum 1)]), (''error'', JNull)]"
  let ?w = "start [Json ?p1, Json ?p2]"
  have b1: "scripted (backend_state ?w) (anki_post ''deckNamesAndIds'' (JObj [])) = (Json ?p1, [Json ?p2])"
    by (simp add: scripted_def start_def)
  have g1: "get_property ?p1 ''result'' = Inr (id_mapping [(''Default'', 1), (''Spanish'', 1700000000000)])"
    by (simp add: id_mapping_def)
  have b2: "scripted [Json ?p2] (anki_post ''modelNamesAndIds'' (JObj [])) = (Json ?p2, [])"
    by (simp add: scripted_def)
  have g2: "get_property ?p2 ''result'' = Inr (id_mapping [(''Basic'', 1)])"
    by (simp add: id_mapping_def)
  have n: "show_int 1 = ''1''" "show_int 1700000000000 = ''1700000000000''"
    by (simp_all add: show_int_def show_nat.simps digit_char_simps)
  have rg: "list_all (\<lambda>i. \<bar>i\<bar> < 2 ^ 53)
        (map snd [(''Default'', 1 :: int), (''Spanish'', 1700000000000)]
         @ map snd [(''Basic'', 1 :: int)])"
    by simp
  have dd: "distinct (map snd [(''Default'', 1 :: int), (''Spanish'', 1700000000000)])
            \<and> distinct (map snd [(''Basic'', 1 :: int)])"
    by simp
  from list_resources_entries
         [where be = scripted and w = ?w and ?p1.0 = ?p1 and ?p2.0 = ?p2
            and ?s1.0 = "[Json ?p2]" and ?s2.0 = "[]"
            and decks = "[(''Default'', 1), (''Spanish'', 1700000000000)]"
            and models = "[(''Basic'', 1)]"] b1 g1 b2 g2 rg
  have c: "fst (list_resources scripted ?w) =
       Inr \<lparr> resources =
            map (\<lambda>(k, i). \<lparr> uri = ''anki://decks/'' @ show_int i, name = k \<rparr>)
              [(''Default'', 1), (''Spanish'', 1700000000000)]
          @ map (\<lambda>(k, i). \<lparr> uri = ''anki://models/'' @ show_int i, name = k \<rparr>)
              [(''Basic'', 1)] \<rparr>"
    and d: "distinct (map snd [(''Default'', 1 :: int), (''Spanish'', 1700000000000)])
            \<and> distinct (map snd [(''Basic'', 1 :: int)]) \<longrightarrow>
          distinct (listed_uris (fst (list_resources scripted ?w)))"
    by blast+
  from c have c': "fst (list_resources scripted ?w)
      = Inr \<lparr> resources = [\<lparr> uri = ''anki://decks/1'', name = ''Default'' \<rparr>,
                             \<lparr> uri = ''anki://decks/1700000000000'', name = ''Spanish'' \<rparr>,
                             \<lparr> uri = ''anki://models/1'', name = ''Basic'' \<rparr>] \<rparr>"
    by (simp add: n)
  from d dd have d': "distinct (listed_uris (fst (list_resources scripted ?w)))"
    by blast
  from b1 g1 b2 g2 rg dd c' d' show ?thesis
    by (intro conjI) (erule conjunct1 conjunct2 | assumption)+
qed

end
